theory Spec2Isabelle
  imports Complex_Main "HOL-Library.Sublist"
begin

section \<open>The OpenMM notebook as a straight-line program\<close>

text \<open>
  The repository is one Jupyter notebook (\<open>openmm_sims\<close>). Its code cells are
  straight-line Python: every statement is a call into OpenMM, MDTraj, nglview,
  matplotlib or the Python runtime with literal arguments, or a plain list operation on
  \<open>simulation.reporters\<close>. Two of its code cells are not Python at all.

  The model keeps that shape. A statement is a value of \<open>stmt\<close>, named after the
  attribute path the notebook calls; a cell is the list of its statements, or a cell that
  does not compile; the collaborators are a parameter that decides, from the calls made so
  far, whether the next call raises. What the collaborators compute (energies,
  coordinates, distances, the text a reporter prints) is not part of the repository and is
  not modelled.
\<close>

subsection \<open>Quantities and keyword arguments\<close>

text \<open>
  \<open>298.15*unit.kelvin\<close>, \<open>5.0/unit.picoseconds\<close>, \<open>2.0*unit.femtoseconds\<close>. The
  numeric literals are read as the decimal numbers written in the source.
\<close>

datatype openmm_unit = kelvin | picoseconds | femtoseconds

datatype quantity = Times rat openmm_unit | Over rat openmm_unit

datatype nonbondedMethod = NoCutoff

datatype constraints = HBonds

text \<open>
  The keyword arguments of \<open>app.StateDataReporter(stdout, interval, ...)\<close>; a keyword the
  notebook leaves out has the constructor's default, \<open>False\<close>.
\<close>

record state_data =
  reportInterval :: nat
  step :: bool
  time :: bool
  potentialEnergy :: bool
  temperature :: bool
  speed :: bool
  separator :: string

datatype reporter =
    StateDataReporter state_data
  | DCDReporter string nat

subsection \<open>Statements\<close>

datatype stmt =
    py_import string
  | py_print string
  | time_time
  | app_PDBFile string
  | app_ForceField string
  | forcefield_createSystem nonbondedMethod constraints
  | mm_LangevinIntegrator quantity quantity quantity
  | integrator_setConstraintTolerance rat
  | mm_Platform_getPlatformByName string
  | app_Simulation
  | context_setPositions
  | context_getState
  | st_getPotentialEnergy
  | simulation_minimizeEnergy nat
  | reporters_append reporter
  | reporters_clear
  | context_setVelocitiesToTemperature quantity
  | simulation_step nat
  | md_load string string
  | ngl_show_mdtraj
  | topology_to_dataframe
  | md_compute_distances "nat list list"
  | plt_hist nat
  | plt_title string
  | plt_xlabel string
  | plt_ylabel string
  | plt_show
  | try_except "stmt list" "stmt list"
  | py_raise string


text \<open>
  A code cell either compiles to its statements or is not Python; the text of such a cell
  is kept for reference.
\<close>

datatype cell = code_cell "stmt list" | not_python string

subsection \<open>Atom-index selections\<close>

text \<open>
  Cell 45: \<^verbatim>\<open>bond_indices = [0, 4] # atoms to define the bond length\<close>. It is the only
  selection the notebook binds: the line \<^verbatim>\<open>phi_indices = []\<close> of cell 49 is never
  executed, because that cell does not compile.
\<close>

definition bond_indices :: "nat list" where
  "bond_indices = [0, 4]"

text \<open>
  The shape invariant of a selection, as the specification words it: two atoms for a
  bond, four for a torsion, every index an atom of the molecule.
\<close>

datatype measurement = Bond | Torsion



subsection \<open>The code cells, in document order\<close>

text \<open>
  Cells are numbered by their position in the notebook file, counting from 0 and
  including the markdown cells. Cells 5 to 28 are the ethane run.

  Cell 5: \<^verbatim>\<open>import openmm as mm\<close>, \<^verbatim>\<open>from openmm import app, unit\<close>.
\<close>

definition cell_imports :: "stmt list" where
  "cell_imports = [py_import ''openmm'', py_import ''openmm'']"

text \<open>
  Cell 7: \<^verbatim>\<open>pdb = app.PDBFile('data/ethane.pdb')\<close>,
  \<^verbatim>\<open>forcefield = app.ForceField('data/ethane.gaff2.xml')\<close>.
\<close>

definition cell_load_ethane :: "stmt list" where
  "cell_load_ethane =
     [app_PDBFile ''data/ethane.pdb'',
      app_ForceField ''data/ethane.gaff2.xml'']"

text \<open>
  Cell 11: \<^verbatim>\<open>system = forcefield.createSystem(pdb.topology, nonbondedMethod=app.NoCutoff, constraints=app.HBonds)\<close>.
\<close>

definition cell_system :: "stmt list" where
  "cell_system = [forcefield_createSystem NoCutoff HBonds]"

text \<open>
  Cell 13:
  \<^verbatim>\<open>integrator = mm.LangevinIntegrator(298.15*unit.kelvin, 5.0/unit.picoseconds, 2.0*unit.femtoseconds)\<close>,
  \<^verbatim>\<open>integrator.setConstraintTolerance(1e-5)\<close>.
\<close>

definition cell_integrator :: "stmt list" where
  "cell_integrator =
     [mm_LangevinIntegrator (Times 298.15 kelvin) (Over 5.0 picoseconds) (Times 2.0 femtoseconds),
      integrator_setConstraintTolerance (1 / 100000)]"

text \<open>
  Cell 16: \<^verbatim>\<open>platform = mm.Platform.getPlatformByName('Reference')\<close>,
  \<^verbatim>\<open>simulation = app.Simulation(pdb.topology, system, integrator, platform)\<close>,
  \<^verbatim>\<open>simulation.context.setPositions(pdb.positions)\<close>.
\<close>

definition cell_simulation :: "stmt list" where
  "cell_simulation =
     [mm_Platform_getPlatformByName ''Reference'',
      app_Simulation,
      context_setPositions]"

text \<open>
  Cell 19: the energy is read and printed, \<^verbatim>\<open>simulation.minimizeEnergy(maxIterations=100)\<close>
  is called, and the energy is read and printed again. A formatted print is the call
  \<open>st.getPotentialEnergy()\<close> followed by the print of the text.
\<close>

definition cell_minimize :: "stmt list" where
  "cell_minimize =
     [py_print ''Minimizing...'',
      context_getState,
      st_getPotentialEnergy,
      py_print ''Potential energy before minimization is '',
      simulation_minimizeEnergy 100,
      context_getState,
      st_getPotentialEnergy,
      py_print ''Potential energy after minimization is '']"

text \<open>
  Cell 24: \<^verbatim>\<open>from sys import stdout\<close>, \<^verbatim>\<open>print('Equilibrating...')\<close>,
  \<^verbatim>\<open>simulation.reporters.append(app.StateDataReporter(stdout, 100, step=True, potentialEnergy=True, temperature=True, separator=','))\<close>,
  \<^verbatim>\<open>simulation.context.setVelocitiesToTemperature(150.0*unit.kelvin)\<close>,
  \<^verbatim>\<open>simulation.step(2500)\<close>.
\<close>

definition cell_equilibrate_ethane :: "stmt list" where
  "cell_equilibrate_ethane =
     [py_import ''sys'',
      py_print ''Equilibrating...'',
      reporters_append (StateDataReporter
        \<lparr>reportInterval = 100, step = True, time = False, potentialEnergy = True,
         temperature = True, speed = False, separator = '',''\<rparr>),
      context_setVelocitiesToTemperature (Times 150.0 kelvin),
      simulation_step 2500]"

text \<open>
  Cell 28: \<^verbatim>\<open>import time as time\<close>, the banner, \<^verbatim>\<open>tinit=time.time()\<close>,
  \<^verbatim>\<open>simulation.reporters.clear()\<close>,
  \<^verbatim>\<open>simulation.reporters.append(app.StateDataReporter(stdout, 250000, step=True, time=True, potentialEnergy=True, temperature=True, speed=True, separator=','))\<close>,
  \<^verbatim>\<open>simulation.reporters.append(app.DCDReporter('ethane_sim.dcd', 100))\<close>,
  \<^verbatim>\<open>simulation.step(10000000)\<close>, \<^verbatim>\<open>tfinal=time.time()\<close> and two prints.
\<close>

definition cell_production_ethane :: "stmt list" where
  "cell_production_ethane =
     [py_import ''time'',
      py_print ''Running Production...'',
      time_time,
      reporters_clear,
      reporters_append (StateDataReporter
        \<lparr>reportInterval = 250000, step = True, time = True, potentialEnergy = True,
         temperature = True, speed = True, separator = '',''\<rparr>),
      reporters_append (DCDReporter ''ethane_sim.dcd'' 100),
      simulation_step 10000000,
      time_time,
      py_print ''Done!'',
      py_print ''Time required for simulation:'']"

definition ethane_run :: "stmt list" where
  "ethane_run =
     cell_imports @ cell_load_ethane @ cell_system @ cell_integrator @ cell_simulation
     @ cell_minimize @ cell_equilibrate_ethane @ cell_production_ethane"

text \<open>
  Cell 32: the butane run, one cell with the statements of cells 7 to 28 again. It differs
  in the two file names \<open>data/butane.pdb\<close> and \<open>data/butane.gaff2.xml\<close>, the
  equilibration (\<^verbatim>\<open>StateDataReporter(stdout, 250, ...)\<close>,
  \<^verbatim>\<open>setVelocitiesToTemperature(298*unit.kelvin)\<close>, \<^verbatim>\<open>simulation.step(5000)\<close>) and the
  production (\<^verbatim>\<open>StateDataReporter(stdout, 500000, ...)\<close>,
  \<^verbatim>\<open>DCDReporter('butane_sim.dcd', 100)\<close>, \<^verbatim>\<open>simulation.step(20000000)\<close>); it does not
  import \<open>time\<close> again.
\<close>

definition butane_run :: "stmt list" where
  "butane_run =
     [app_PDBFile ''data/butane.pdb'',
      app_ForceField ''data/butane.gaff2.xml'',
      forcefield_createSystem NoCutoff HBonds,
      mm_LangevinIntegrator (Times 298.15 kelvin) (Over 5.0 picoseconds) (Times 2.0 femtoseconds),
      integrator_setConstraintTolerance (1 / 100000),
      mm_Platform_getPlatformByName ''Reference'',
      app_Simulation,
      context_setPositions,
      py_print ''Minimizing...'',
      context_getState,
      st_getPotentialEnergy,
      py_print ''Potential energy before minimization is '',
      simulation_minimizeEnergy 100,
      context_getState,
      st_getPotentialEnergy,
      py_print ''Potential energy after minimization is '',
      py_import ''sys'',
      py_print ''Equilibrating...'',
      reporters_append (StateDataReporter
        \<lparr>reportInterval = 250, step = True, time = False, potentialEnergy = True,
         temperature = True, speed = False, separator = '',''\<rparr>),
      context_setVelocitiesToTemperature (Times 298 kelvin),
      simulation_step 5000,
      py_print ''Running Production...'',
      time_time,
      reporters_clear,
      reporters_append (StateDataReporter
        \<lparr>reportInterval = 500000, step = True, time = True, potentialEnergy = True,
         temperature = True, speed = True, separator = '',''\<rparr>),
      reporters_append (DCDReporter ''butane_sim.dcd'' 100),
      simulation_step 20000000,
      time_time,
      py_print ''Done!'',
      py_print ''Time required for simulation:'']"

text \<open>
  Cells 35 to 51: the analysis of the ethane trajectory.

  Two code cells are not Python: cell 37 is the shell line
  \<^verbatim>\<open>$ conda install -c conda-forge mdtraj nglview\<close>, which the notebook says to type in
  a terminal, and cell 49 is the unfinished torsion exercise, whose second line
  \<^verbatim>\<open>phi = # use the compute_dihedrals function\<close> has no right-hand side. Python
  compiles a cell before it runs any of it, so running either cell raises
  \<open>SyntaxError\<close> and executes nothing.

  Cell 35: \<^verbatim>\<open>simulation.reporters.append(app.DCDReporter('ethane_sim.dcd', 100))\<close>.

  Cell 38: \<^verbatim>\<open>import mdtraj as md\<close>, \<^verbatim>\<open>traj = md.load('ethane_sim.dcd', top='data/ethane.pdb')\<close>.

  Cell 40: \<^verbatim>\<open>import nglview as ngl\<close>, \<^verbatim>\<open>visualize = ngl.show_mdtraj(traj)\<close>.

  Cell 42: \<^verbatim>\<open>atoms, bonds = traj.topology.to_dataframe()\<close>.

  Cell 45: \<^verbatim>\<open>bond_length = md.compute_distances(traj, [bond_indices])\<close>.

  Cell 47: \<^verbatim>\<open>import matplotlib.pyplot as plt\<close>, \<^verbatim>\<open>plt.hist(bond_length, bins=120)\<close>, the
  title, the two axis labels and \<^verbatim>\<open>plt.show()\<close>.

  Cell 51: \<^verbatim>\<open>import matplotlib.pyplot as plt\<close> and a comment.
\<close>

definition cell_dcd_again :: "stmt list" where
  "cell_dcd_again = [reporters_append (DCDReporter ''ethane_sim.dcd'' 100)]"

definition cell_load_traj :: "stmt list" where
  "cell_load_traj = [py_import ''mdtraj'', md_load ''ethane_sim.dcd'' ''data/ethane.pdb'']"

definition cell_visualize :: "stmt list" where
  "cell_visualize = [py_import ''nglview'', ngl_show_mdtraj]"

definition cell_atoms :: "stmt list" where
  "cell_atoms = [topology_to_dataframe]"

definition cell_bond_length :: "stmt list" where
  "cell_bond_length = [md_compute_distances [bond_indices]]"

definition cell_histogram :: "stmt list" where
  "cell_histogram =
     [py_import ''matplotlib.pyplot'',
      plt_hist 120,
      plt_title ''C-C bond length histogram'',
      plt_xlabel ''Bond length (nm)'',
      plt_ylabel ''Counts'',
      plt_show]"

definition cell_torsion_histogram :: "stmt list" where
  "cell_torsion_histogram = [py_import ''matplotlib.pyplot'']"

definition cell_conda :: cell where
  "cell_conda = not_python ''$ conda install -c conda-forge mdtraj nglview''"

definition cell_torsion :: cell where
  "cell_torsion = not_python ''phi = # use the compute_dihedrals function''"

definition analysis :: "cell list" where
  "analysis =
     [code_cell cell_dcd_again, cell_conda, code_cell cell_load_traj,
      code_cell cell_visualize, code_cell cell_atoms, code_cell cell_bond_length,
      code_cell cell_histogram, cell_torsion, code_cell cell_torsion_histogram]"

text \<open>The code cells of the notebook, in document order.\<close>

definition notebook :: "cell list" where
  "notebook =
     [code_cell cell_imports, code_cell cell_load_ethane, code_cell cell_system,
      code_cell cell_integrator, code_cell cell_simulation, code_cell cell_minimize,
      code_cell cell_equilibrate_ethane, code_cell cell_production_ethane,
      code_cell butane_run]
     @ analysis"


subsection \<open>Running statements and cells\<close>

text \<open>
  The interpreter state the notebook itself owns: the list \<open>simulation.reporters\<close> of the
  current \<open>simulation\<close> object; the calls completed so far, each with the reporters
  attached when it was made; and every call made so far, completed or not.
\<close>

type_synonym event = "stmt \<times> reporter list"

record nb_state =
  reporters :: "reporter list"
  trace :: "event list"
  attempts :: "stmt list"

definition init :: nb_state where
  "init = \<lparr>reporters = [], trace = [], attempts = []\<rparr>"

text \<open>
  A collaborator sees every call made so far, the failed ones too, and the next call, and
  either raises an error of its own (of any type \<open>'e\<close>) or returns. A call repeated
  after a failure is therefore a different question to the collaborator than the first
  attempt was.
\<close>

type_synonym 'e collaborators = "stmt list \<Rightarrow> stmt \<Rightarrow> 'e option"

definition no_failure :: "'e collaborators" where
  "no_failure = (\<lambda>_ _. None)"

text \<open>
  What ends a run early: an exception a collaborator raised, passed on as it is; an
  exception the program raised itself; or Python refusing to compile a cell.
\<close>

datatype 'e failure = Raised 'e | Own string | SyntaxError

text \<open>
  What a completed statement does to the notebook's own state: a new \<open>Simulation\<close> has
  an empty reporter list, \<open>append\<close> and \<open>clear\<close> are the Python list methods.
\<close>

fun effect :: "stmt \<Rightarrow> nb_state \<Rightarrow> nb_state" where
  "effect app_Simulation s = s\<lparr>reporters := []\<rparr>"
| "effect (reporters_append r) s = s\<lparr>reporters := reporters s @ [r]\<rparr>"
| "effect reporters_clear s = s\<lparr>reporters := []\<rparr>"
| "effect _ s = s"

text \<open>
  Python's rules for a statement and for a sequence of statements. A call is made once;
  if the collaborator raises, the sequence ends there with the raised value and the
  state the call found. \<open>try\<close> runs its handler from the state of the failure and
  goes on; \<open>raise\<close> ends the sequence with the program's own exception.
\<close>

fun exec :: "'e collaborators \<Rightarrow> nb_state \<Rightarrow> stmt \<Rightarrow> ('e failure \<times> nb_state) + nb_state"
  and run :: "'e collaborators \<Rightarrow> nb_state \<Rightarrow> stmt list \<Rightarrow> ('e failure \<times> nb_state) + nb_state"
where
  "exec env s (try_except body handler) =
     (case run env s body of
        Inl (f, s') \<Rightarrow> run env s' handler
      | Inr s' \<Rightarrow> Inr s')"
| "exec env s (py_raise x) = Inl (Own x, s)"
| "exec env s c =
     (case env (attempts s) c of
        Some e \<Rightarrow> Inl (Raised e, s\<lparr>attempts := attempts s @ [c]\<rparr>)
      | None \<Rightarrow>
          Inr (effect c (s\<lparr>trace := trace s @ [(c, reporters s)],
                            attempts := attempts s @ [c]\<rparr>)))"
| "run env s [] = Inr s"
| "run env s (c # cs) =
     (case exec env s c of
        Inl f \<Rightarrow> Inl f
      | Inr s' \<Rightarrow> run env s' cs)"


fun final_state :: "('e failure \<times> nb_state) + nb_state \<Rightarrow> nb_state" where
  "final_state (Inl (f, s)) = s"
| "final_state (Inr s) = s"





subsection \<open>Reading a run\<close>

text \<open>The temperatures a program configures.\<close>

fun integrator_temperatures :: "stmt list \<Rightarrow> quantity list" where
  "integrator_temperatures [] = []"
| "integrator_temperatures (mm_LangevinIntegrator T f dt # cs) = T # integrator_temperatures cs"
| "integrator_temperatures (_ # cs) = integrator_temperatures cs"

fun velocity_temperatures :: "stmt list \<Rightarrow> quantity list" where
  "velocity_temperatures [] = []"
| "velocity_temperatures (context_setVelocitiesToTemperature T # cs) = T # velocity_temperatures cs"
| "velocity_temperatures (_ # cs) = velocity_temperatures cs"

fun integrator_timesteps :: "stmt list \<Rightarrow> quantity list" where
  "integrator_timesteps [] = []"
| "integrator_timesteps (mm_LangevinIntegrator T f dt # cs) = dt # integrator_timesteps cs"
| "integrator_timesteps (_ # cs) = integrator_timesteps cs"

text \<open>
  A production run is the data-collecting phase: an integration call made while a
  trajectory reporter is attached.
\<close>

fun is_DCD :: "reporter \<Rightarrow> bool" where
  "is_DCD (DCDReporter f n) = True"
| "is_DCD (StateDataReporter d) = False"

fun production_steps :: "event list \<Rightarrow> (nat \<times> reporter list) list" where
  "production_steps [] = []"
| "production_steps ((simulation_step n, rs) # es) =
     (if list_ex is_DCD rs then (n, rs) # production_steps es else production_steps es)"
| "production_steps (_ # es) = production_steps es"

text \<open>
  Simulated time of \<open>n\<close> steps of a timestep given in femtoseconds, in nanoseconds
  (1 ns = 1000000 fs).
\<close>

fun simulated_ns :: "nat \<Rightarrow> quantity \<Rightarrow> rat option" where
  "simulated_ns n (Times dt femtoseconds) = Some (of_nat n * dt / 1000000)"
| "simulated_ns n _ = None"

text \<open>
  The stages of the pipeline. A call belongs to the stage whose work it does; printing,
  timing, imports, reading the state back and editing the reporter list belong to none.
  An integration call is production when a trajectory reporter is attached and
  equilibration otherwise.
\<close>

datatype stage = Load | Build | Minimize | Equilibrate | Production | Analyze










section \<open>Unfolding the cells\<close>

lemmas cells =
  notebook_def ethane_run_def butane_run_def analysis_def cell_imports_def
  cell_load_ethane_def cell_system_def cell_integrator_def cell_simulation_def
  cell_minimize_def cell_equilibrate_ethane_def cell_production_ethane_def
  cell_dcd_again_def cell_load_traj_def cell_visualize_def cell_atoms_def
  cell_bond_length_def cell_histogram_def cell_torsion_histogram_def
  cell_conda_def cell_torsion_def

section \<open>Configured temperatures\<close>

text \<open>
  C9. In the ethane run the initial velocities are drawn at 150 K while the Langevin
  integrator targets 298.15 K; in the butane run the velocities are drawn at 298 K while
  the integrator targets 298.15 K. In both runs the two temperatures differ.
\<close>

theorem velocity_temperature_differs_from_target:
  "integrator_temperatures ethane_run = [Times 298.15 kelvin]
   \<and> velocity_temperatures ethane_run = [Times 150 kelvin]
   \<and> Times 150 kelvin \<noteq> Times 298.15 kelvin
   \<and> integrator_temperatures butane_run = [Times 298.15 kelvin]
   \<and> velocity_temperatures butane_run = [Times 298 kelvin]
   \<and> Times 298 kelvin \<noteq> Times 298.15 kelvin"
  by (simp add: cells)

section \<open>The butane production run\<close>

text \<open>
  C10. The butane production run is one call \<open>simulation.step(20000000)\<close>, made with
  exactly two reporters attached: the console reporter with interval 500000 and the
  trajectory reporter writing \<open>butane_sim.dcd\<close> with interval 100. The integrator's
  timestep is 2 fs, so the call covers 40 ns of simulated time.
\<close>

theorem butane_production_run:
  "production_steps (trace (final_state (run no_failure init butane_run))) =
      [(20000000,
        [StateDataReporter \<lparr>reportInterval = 500000, step = True, time = True,
           potentialEnergy = True, temperature = True, speed = True, separator = '',''\<rparr>,
         DCDReporter ''butane_sim.dcd'' 100])]
   \<and> integrator_timesteps butane_run = [Times 2 femtoseconds]
   \<and> simulated_ns 20000000 (Times 2 femtoseconds) = Some 40"
  by (simp add: cells init_def no_failure_def)


section \<open>Statements without handlers\<close>

















section \<open>Atom-index selections\<close>


section \<open>The order of the stages\<close>











section \<open>Failures of the collaborators\<close>




end
